theory Spec2Isabelle
  imports Complex_Main "HOL-Library.Log_Nat"
begin

section \<open>Data model (types.ts)\<close>

text \<open>
  The interfaces of \<^verbatim>\<open>types.ts\<close> as records. Field names are global in a theory, so a
  field whose name occurs in two interfaces, or is a keyword of the proof language,
  carries a short prefix: \<^verbatim>\<open>vt_term\<close> is \<^verbatim>\<open>VisualTaskItem.term\<close>,
  \<^verbatim>\<open>fc_back\<close> is \<^verbatim>\<open>Flashcard.back\<close>, \<^verbatim>\<open>video_title\<close> is \<^verbatim>\<open>YouTubeVideo.title\<close>.
  JavaScript strings are modelled as \<^typ>\<open>string\<close>, one character per code unit.
\<close>

record QuizQuestion =
  question :: string
  options :: "string list"
  answer :: string
  explanation :: string

record Badge =
  name :: string
  description :: string

record Flashcard =
  fc_front :: string
  fc_back :: string

record ProblemSolvingChallenge =
  scenario :: string
  task :: string

record Concept =
  title :: string
  summary :: string
  story_scene :: string
  image_prompt :: string
  quiz :: "QuizQuestion list"
  flashcards :: "Flashcard list"
  badge :: Badge
  narration :: string
  problem_solving_challenge :: ProblemSolvingChallenge

record VisualTaskItem =
  vt_term :: string
  vt_image_prompt :: string

record ModuleData =
  simple_summary :: string
  visual_task :: "VisualTaskItem list"
  concepts :: "Concept list"

record YouTubeVideo =
  videoId :: string
  video_title :: string
  channelName :: string

record Answer =
  selected :: string
  isCorrect :: bool

text \<open>
  \<^verbatim>\<open>QuizAnswers = Record<number, Record<number, {selected, isCorrect}>>\<close>: an object
  keyed by concept index whose values are objects keyed by question index.
\<close>

type_synonym QuizAnswers = "nat \<rightharpoonup> (nat \<rightharpoonup> Answer)"

text \<open>The part of a browser \<^verbatim>\<open>File\<close> the program reads: its name, media type and size in bytes.\<close>

record File =
  file_name :: string
  file_type :: string
  file_size :: nat

datatype SelectedMedia = LocalFile File | Video YouTubeVideo

text \<open>
  A thrown value: an \<^verbatim>\<open>Error\<close> object with its message, or some other value
  (the handlers test \<^verbatim>\<open>err instanceof Error\<close>).
\<close>

datatype thrown = Error string | NonError

section \<open>The application state (App.tsx)\<close>

datatype View = Idle | Dashboard | ErrorView

datatype ModuleStep = Generating | PreModule | Learning | Results

text \<open>
  The eight \<^verbatim>\<open>useState\<close> cells of \<^verbatim>\<open>App\<close>; \<^verbatim>\<open>null\<close> is \<^const>\<open>None\<close>. The
  \<^verbatim>\<open>moduleData\<close> cell holds the value that \<^verbatim>\<open>JSON.parse\<close> returned, which TypeScript
  types as \<^verbatim>\<open>ModuleData\<close> without checking it. The record is therefore polymorphic in
  that value: \<^verbatim>\<open>startGeneration\<close>, which stores it, is modelled on the parsed JSON value,
  and the navigation handlers, which read \<^verbatim>\<open>moduleData.concepts\<close>, on a module of the
  declared type.
\<close>

record 'm app_state =
  view :: View
  error :: "string option"
  selectedMedia :: "SelectedMedia option"
  moduleStep :: "ModuleStep option"
  moduleData :: "'m option"
  transcription :: "string option"
  currentConceptIndex :: int
  quizAnswers :: QuizAnswers

definition initial_state :: "'m app_state" where
  "initial_state =
    \<lparr>view = Idle, error = None, selectedMedia = None, moduleStep = None,
     moduleData = None, transcription = None, currentConceptIndex = 0,
     quizAnswers = Map.empty\<rparr>"

definition resetState :: "'m app_state \<Rightarrow> 'm app_state" where
  "resetState s =
    s\<lparr>view := Idle, error := None, selectedMedia := None, moduleStep := None,
      moduleData := None, transcription := None, currentConceptIndex := 0,
      quizAnswers := Map.empty\<rparr>"

definition resetModule :: "'m app_state \<Rightarrow> 'm app_state" where
  "resetModule s =
    s\<lparr>moduleStep := None, moduleData := None, currentConceptIndex := 0,
      quizAnswers := Map.empty\<rparr>"

text \<open>
  The \<^verbatim>\<open>catch\<close> block of \<^verbatim>\<open>startGeneration\<close>: the message of an \<^verbatim>\<open>Error\<close>, a fixed
  text otherwise, and the top-level error view.
\<close>

definition generation_failed :: "thrown \<Rightarrow> 'm app_state \<Rightarrow> 'm app_state" where
  "generation_failed e s =
    s\<lparr>error := Some (case e of Error m \<Rightarrow> m | NonError \<Rightarrow> ''An unknown error occurred.''),
      view := ErrorView\<rparr>"

definition no_concepts_message :: string where
  "no_concepts_message =
    ''The AI failed to identify any learning concepts. Please try a different source.''"

definition handleFileSelect :: "File \<Rightarrow> 'm app_state \<Rightarrow> 'm app_state" where
  "handleFileSelect file s =
    s\<lparr>selectedMedia := Some (LocalFile file), view := Dashboard, error := None\<rparr>"

definition handleVideoSelect :: "YouTubeVideo \<Rightarrow> 'm app_state \<Rightarrow> 'm app_state" where
  "handleVideoSelect video s =
    s\<lparr>selectedMedia := Some (Video video), view := Dashboard, error := None\<rparr>"

definition handleStartModule :: "'m app_state \<Rightarrow> 'm app_state" where
  "handleStartModule s = s\<lparr>moduleStep := Some Learning\<rparr>"

text \<open>
  \<^verbatim>\<open>{...prev, [conceptIndex]: {...prev[conceptIndex], [questionIndex]: {selected, isCorrect}}}\<close>:
  spreading \<^verbatim>\<open>undefined\<close> contributes no key.
\<close>

definition upsert_answer :: "nat \<Rightarrow> nat \<Rightarrow> string \<Rightarrow> bool \<Rightarrow> QuizAnswers \<Rightarrow> QuizAnswers" where
  "upsert_answer conceptIndex questionIndex sel ok prev =
    prev(conceptIndex \<mapsto>
      (case prev conceptIndex of None \<Rightarrow> Map.empty | Some inner \<Rightarrow> inner)
        (questionIndex \<mapsto> \<lparr>selected = sel, isCorrect = ok\<rparr>))"

definition handleAnswerSubmit ::
  "nat \<Rightarrow> nat \<Rightarrow> string \<Rightarrow> bool \<Rightarrow> 'm app_state \<Rightarrow> 'm app_state" where
  "handleAnswerSubmit conceptIndex questionIndex sel ok s =
    s\<lparr>quizAnswers := upsert_answer conceptIndex questionIndex sel ok (quizAnswers s)\<rparr>"

text \<open>\<^verbatim>\<open>answers[c] && answers[c][q]\<close>: the entry recorded for a question, if any.\<close>

definition answer_at :: "QuizAnswers \<Rightarrow> nat \<Rightarrow> nat \<Rightarrow> Answer option" where
  "answer_at answers c q = (case answers c of None \<Rightarrow> None | Some inner \<Rightarrow> inner q)"

definition handleNextConcept :: "ModuleData app_state \<Rightarrow> ModuleData app_state" where
  "handleNextConcept s =
    (case moduleData s of
       None \<Rightarrow> s
     | Some m \<Rightarrow>
         if currentConceptIndex s < int (length (concepts m)) - 1
         then s\<lparr>currentConceptIndex := currentConceptIndex s + 1\<rparr>
         else s)"

definition handlePrevConcept :: "'m app_state \<Rightarrow> 'm app_state" where
  "handlePrevConcept s =
    (if currentConceptIndex s > 0
     then s\<lparr>currentConceptIndex := currentConceptIndex s - 1\<rparr>
     else s)"

definition handleFinishModule :: "'m app_state \<Rightarrow> 'm app_state" where
  "handleFinishModule s = s\<lparr>moduleStep := Some Results\<rparr>"

section \<open>The media selector (FileUpload.tsx)\<close>

definition MAX_FILE_SIZE_MB :: nat where
  "MAX_FILE_SIZE_MB = 20"

definition MAX_FILE_SIZE_BYTES :: nat where
  "MAX_FILE_SIZE_BYTES = MAX_FILE_SIZE_MB * 1024 * 1024"

text \<open>\<^verbatim>\<open>String.prototype.startsWith\<close> at position 0.\<close>

definition startsWith :: "string \<Rightarrow> string \<Rightarrow> bool" where
  "startsWith s p = (take (length p) s = p)"

definition invalid_type_message :: string where
  "invalid_type_message = ''Please upload a valid audio or video file.''"

definition too_large_message :: string where
  "too_large_message = ''File is too large. Please select a file smaller than 20 MB.''"

text \<open>
  \<^verbatim>\<open>handleFileChange(files)\<close> of \<^verbatim>\<open>FileUpload\<close>, with \<^verbatim>\<open>onFileSelect\<close> bound to
  \<^const>\<open>handleFileSelect\<close> as \<^verbatim>\<open>App\<close> passes it. The state is the component's own
  \<^verbatim>\<open>error\<close> cell paired with the application state. \<^verbatim>\<open>files\<close> is a \<^verbatim>\<open>FileList\<close> or \<^verbatim>\<open>null\<close>.
\<close>

definition handleFileChange ::
  "File list option \<Rightarrow> string option \<times> 'm app_state \<Rightarrow> string option \<times> 'm app_state" where
  "handleFileChange files st =
    (let app = snd st in
     case files of
       None \<Rightarrow> (None, app)
     | Some [] \<Rightarrow> (None, app)
     | Some (file # _) \<Rightarrow>
         if \<not> startsWith (file_type file) ''audio/'' \<and> \<not> startsWith (file_type file) ''video/''
         then (Some invalid_type_message, app)
         else if file_size file > MAX_FILE_SIZE_BYTES
         then (Some too_large_message, app)
         else (None, handleFileSelect file app))"

section \<open>Image generation with retry (geminiService.ts)\<close>

text \<open>
  How one call of \<^verbatim>\<open>ai.models.generateImages\<close> settles: it rejects with a thrown value,
  or resolves to a response whose \<^verbatim>\<open>generatedImages\<close> is absent or a list of images
  (each given by its \<^verbatim>\<open>imageBytes\<close>).
\<close>

datatype image_outcome = ImagesRejected thrown | ImagesResponse "string list option"

text \<open>What \<^verbatim>\<open>generateImage\<close> does to the outside world, in order.\<close>

datatype io_event = CallGenerateImages | Delay nat

text \<open>\<^verbatim>\<open>String.prototype.includes\<close>: the pattern occurs at some position.\<close>

definition str_includes :: "string \<Rightarrow> string \<Rightarrow> bool" where
  "str_includes s p = list_ex (\<lambda>i. take (length p) (drop i s) = p) [0..<Suc (length s)]"

text \<open>The body of the \<^verbatim>\<open>try\<close> block, given how the call settled.\<close>

definition image_attempt :: "image_outcome \<Rightarrow> thrown + string" where
  "image_attempt out =
    (case out of
       ImagesRejected e \<Rightarrow> Inl e
     | ImagesResponse None \<Rightarrow> Inl (Error ''Image generation failed, no images returned.'')
     | ImagesResponse (Some []) \<Rightarrow> Inl (Error ''Image generation failed, no images returned.'')
     | ImagesResponse (Some (imageBytes # _)) \<Rightarrow> Inr (''data:image/png;base64,'' @ imageBytes))"

definition is_rate_limit :: "thrown \<Rightarrow> bool" where
  "is_rate_limit e = (case e of Error m \<Rightarrow> str_includes m ''429'' | NonError \<Rightarrow> False)"

definition retries_exhausted_message :: string where
  "retries_exhausted_message =
    ''Failed to generate image after multiple retries due to rate limiting.''"

text \<open>
  The \<^verbatim>\<open>while (retries > 0)\<close> loop. \<open>service n\<close> is how the \<open>n\<close>-th call (from 0) of
  the external image service settles; the arguments are \<^verbatim>\<open>retries\<close>, \<^verbatim>\<open>backoff\<close>, the
  number of calls made so far and the events so far. The result is what the function
  returns or throws, with the events.
\<close>

fun generateImage_loop ::
  "(nat \<Rightarrow> image_outcome) \<Rightarrow> nat \<Rightarrow> nat \<Rightarrow> nat \<Rightarrow> io_event list
     \<Rightarrow> (thrown + string) \<times> io_event list" where
  "generateImage_loop service 0 backoff n evs =
     (Inl (Error retries_exhausted_message), evs)"
| "generateImage_loop service (Suc r) backoff n evs =
     (case image_attempt (service n) of
        Inr url \<Rightarrow> (Inr url, evs @ [CallGenerateImages])
      | Inl e \<Rightarrow>
          if is_rate_limit e \<and> Suc r > 0
          then generateImage_loop service r (backoff * 2) (Suc n)
                 (evs @ [CallGenerateImages, Delay backoff])
          else (Inl (case e of
                       Error m \<Rightarrow> Error (''Failed to generate image: '' @ m)
                     | NonError \<Rightarrow> Error ''An unknown error occurred during image generation.''),
                evs @ [CallGenerateImages]))"

definition generateImage :: "(nat \<Rightarrow> image_outcome) \<Rightarrow> (thrown + string) \<times> io_event list" where
  "generateImage service = generateImage_loop service 3 1000 0 []"

definition calls_made :: "io_event list \<Rightarrow> nat" where
  "calls_made evs = length (filter (\<lambda>ev. ev = CallGenerateImages) evs)"

section \<open>The pre-module view (PreQuestView.tsx)\<close>

record pq_state =
  imageUrls :: "string \<rightharpoonup> string"
  isLoading :: bool
  pq_error :: "string option"
  matchedPairs :: "string list"
  dropTarget :: "string option"

text \<open>The initial values of the component's \<^verbatim>\<open>useState\<close> cells.\<close>

definition pq_initial :: pq_state where
  "pq_initial =
    \<lparr>imageUrls = Map.empty, isLoading = True, pq_error = None, matchedPairs = [],
     dropTarget = None\<rparr>"

definition images_failed_message :: string where
  "images_failed_message = ''Could not load the visual task images. You can still proceed.''"

text \<open>
  The \<^verbatim>\<open>for (const item of visualTask)\<close> loop of \<^verbatim>\<open>fetchImages\<close> with its \<^verbatim>\<open>catch\<close> and
  \<^verbatim>\<open>finally\<close>. \<open>gen i\<close> is how the \<open>i\<close>-th awaited \<^verbatim>\<open>generateImage\<close> call settles.
\<close>

fun fetch_loop ::
  "VisualTaskItem list \<Rightarrow> (nat \<Rightarrow> thrown + string) \<Rightarrow> nat \<Rightarrow> pq_state \<Rightarrow> pq_state" where
  "fetch_loop [] gen i st = st\<lparr>isLoading := False\<rparr>"
| "fetch_loop (item # items) gen i st =
     (case gen i of
        Inr url \<Rightarrow>
          fetch_loop items gen (Suc i)
            (st\<lparr>imageUrls := (imageUrls st)(vt_image_prompt item \<mapsto> url)\<rparr>)
      | Inl e \<Rightarrow> st\<lparr>pq_error := Some images_failed_message, isLoading := False\<rparr>)"

definition fetchImages ::
  "VisualTaskItem list \<Rightarrow> (nat \<Rightarrow> thrown + string) \<Rightarrow> pq_state \<Rightarrow> pq_state" where
  "fetchImages visualTask gen st =
    fetch_loop visualTask gen 0 (st\<lparr>isLoading := True, pq_error := None, imageUrls := Map.empty\<rparr>)"

text \<open>
  \<^verbatim>\<open>handleDrop(e, imagePrompt)\<close>, with \<open>droppedTerm\<close> the text carried by the drag.
  \<^verbatim>\<open>visualTask.find(...)?.term\<close> is the term of the first item with that prompt.
\<close>

definition handleDrop :: "VisualTaskItem list \<Rightarrow> string \<Rightarrow> string \<Rightarrow> pq_state \<Rightarrow> pq_state" where
  "handleDrop visualTask droppedTerm imagePrompt st =
    (let correctTerm =
           map_option vt_term (find (\<lambda>item. vt_image_prompt item = imagePrompt) visualTask);
         st1 = (if Some droppedTerm = correctTerm \<and> droppedTerm \<notin> set (matchedPairs st)
                then st\<lparr>matchedPairs := matchedPairs st @ [droppedTerm]\<rparr>
                else st)
     in st1\<lparr>dropTarget := None\<rparr>)"

definition isTaskComplete :: "VisualTaskItem list \<Rightarrow> pq_state \<Rightarrow> bool" where
  "isTaskComplete visualTask st = (length (matchedPairs st) = length visualTask)"

text \<open>Truthiness of a \<^verbatim>\<open>string | null\<close>: neither \<^verbatim>\<open>null\<close> nor the empty string.\<close>

definition truthy :: "string option \<Rightarrow> bool" where
  "truthy v = (case v of None \<Rightarrow> False | Some t \<Rightarrow> t \<noteq> [])"

text \<open>The \<^verbatim>\<open>disabled\<close> attribute of the start button.\<close>

definition start_disabled :: "VisualTaskItem list \<Rightarrow> pq_state \<Rightarrow> bool" where
  "start_disabled visualTask st = (\<not> isTaskComplete visualTask st \<and> \<not> truthy (pq_error st))"

text \<open>
  The state of the view after the image-fetching effect has run and the user has made the
  given drops, each a pair (dragged text, prompt of the image dropped on). The effect
  writes only the image, loading and error cells and a drop only the matched pairs and
  the drop target, so the order in which they interleave does not matter.
\<close>

definition pq_after ::
  "VisualTaskItem list \<Rightarrow> (nat \<Rightarrow> thrown + string) \<Rightarrow> (string \<times> string) list \<Rightarrow> pq_state" where
  "pq_after visualTask gen drops =
    foldl (\<lambda>st (droppedTerm, imagePrompt). handleDrop visualTask droppedTerm imagePrompt st)
      (fetchImages visualTask gen pq_initial) drops"

text \<open>Every term of the visual task is among the matched pairs.\<close>

definition all_terms_matched :: "VisualTaskItem list \<Rightarrow> pq_state \<Rightarrow> bool" where
  "all_terms_matched visualTask st =
    list_all (\<lambda>item. vt_term item \<in> set (matchedPairs st)) visualTask"

text \<open>
  What the drops can make of the matched pairs: no term twice, and only terms of the
  visual task.
\<close>

definition matched_ok :: "VisualTaskItem list \<Rightarrow> pq_state \<Rightarrow> bool" where
  "matched_ok visualTask st =
    (distinct (matchedPairs st) \<and> set (matchedPairs st) \<subseteq> vt_term ` set visualTask)"

section \<open>Text responses and their parsing (geminiService.ts)\<close>

text \<open>
  How one call of \<^verbatim>\<open>ai.models.generateContent\<close> settles: it rejects with a thrown
  value, or resolves to a response whose \<^verbatim>\<open>text\<close> is a string or \<^verbatim>\<open>undefined\<close>.
\<close>

datatype text_outcome = Rejected thrown | Response "string option"

definition endsWith :: "string \<Rightarrow> string \<Rightarrow> bool" where
  "endsWith s p = (length p \<le> length s \<and> drop (length s - length p) s = p)"

text \<open>
  The characters \<^verbatim>\<open>String.prototype.trim\<close> removes, among those a \<^typ>\<open>char\<close> can hold:
  tab, line feed, vertical tab, form feed, carriage return, space and no-break space.
\<close>

definition is_js_space :: "char \<Rightarrow> bool" where
  "is_js_space c =
    (c = CHR 0x09 \<or> c = CHR 0x0A \<or> c = CHR 0x0B \<or> c = CHR 0x0C \<or> c = CHR 0x0D
     \<or> c = CHR 0x20 \<or> c = CHR 0xA0)"

definition trim :: "string \<Rightarrow> string" where
  "trim s = rev (dropWhile is_js_space (rev (dropWhile is_js_space s)))"

definition json_fence :: string where
  "json_fence = ''```json'' @ [CHR 0x0A]"

text \<open>
  \<^verbatim>\<open>responseText.replace(/^```json\n|```$/g, '').trim()\<close>. Without the \<^verbatim>\<open>m\<close> flag \<^verbatim>\<open>^\<close>
  and \<^verbatim>\<open>$\<close> match at the two ends of the text only, so the global replacement removes
  at most an opening fence at the very start and a closing fence at the very end.
\<close>

definition clean_json :: "string \<Rightarrow> string" where
  "clean_json responseText =
    (let s1 = (if startsWith responseText json_fence then drop (length json_fence) responseText
               else responseText);
         s2 = (if endsWith s1 ''```'' then take (length s1 - 3) s1 else s1)
     in trim s2)"

definition empty_module_message :: string where
  "empty_module_message =
    ''The AI failed to generate the module from the transcription. This can happen with complex or lengthy content. Please try a shorter file.''"

text \<open>
  \<^verbatim>\<open>generateModuleData\<close>. \<open>parse\<close> stands for \<^verbatim>\<open>JSON.parse(...) as ModuleData\<close>: it gives
  the parsed value, or the message of the \<^verbatim>\<open>SyntaxError\<close> it throws. The type assertion
  does nothing at run time, so the type of the value is left open. The second argument is
  how the call of the external service settled.
\<close>

definition generateModuleData_try :: "(string \<Rightarrow> string + 'a) \<Rightarrow> text_outcome \<Rightarrow> thrown + 'a" where
  "generateModuleData_try parse out =
    (case out of
       Rejected e \<Rightarrow> Inl e
     | Response None \<Rightarrow> Inl (Error empty_module_message)
     | Response (Some responseText) \<Rightarrow>
         if responseText = [] then Inl (Error empty_module_message)
         else (case parse (clean_json responseText) of
                 Inl m \<Rightarrow> Inl (Error m)
               | Inr v \<Rightarrow> Inr v))"

definition generateModuleData :: "(string \<Rightarrow> string + 'a) \<Rightarrow> text_outcome \<Rightarrow> thrown + 'a" where
  "generateModuleData parse out =
    (case generateModuleData_try parse out of
       Inr v \<Rightarrow> Inr v
     | Inl (Error m) \<Rightarrow> Inl (Error (''Failed to generate module concepts: '' @ m))
     | Inl NonError \<Rightarrow>
         Inl (Error ''An unknown error occurred while generating module concepts.''))"

text \<open>\<^verbatim>\<open>String.prototype.indexOf\<close> and \<^verbatim>\<open>lastIndexOf\<close> for a one-character pattern.\<close>

fun indexOf :: "string \<Rightarrow> char \<Rightarrow> int" where
  "indexOf [] c = -1"
| "indexOf (x # xs) c =
     (if x = c then 0 else (if indexOf xs c = -1 then -1 else indexOf xs c + 1))"

definition lastIndexOf :: "string \<Rightarrow> char \<Rightarrow> int" where
  "lastIndexOf s c =
    (if indexOf (rev s) c = -1 then -1 else int (length s) - 1 - indexOf (rev s) c)"

text \<open>
  \<^verbatim>\<open>String.prototype.substring(start, end)\<close>: both indices are clamped to the string and
  swapped when the first is the larger.
\<close>

definition substring :: "string \<Rightarrow> int \<Rightarrow> int \<Rightarrow> string" where
  "substring s start end' =
    (let n = int (length s);
         a = min (max start 0) n;
         b = min (max end' 0) n
     in take (nat (max a b - min a b)) (drop (nat (min a b)) s))"

definition no_results_message :: string where
  "no_results_message = ''The AI did not return any search results.''"

definition unexpected_format_message :: string where
  "unexpected_format_message =
    ''The AI returned search results in an unexpected format. Please try rephrasing your search.''"

definition malformed_json_message :: string where
  "malformed_json_message = ''The AI returned malformed JSON data from search results.''"

text \<open>
  \<^verbatim>\<open>searchYouTube\<close>, with \<open>parse\<close> for \<^verbatim>\<open>JSON.parse(...) as YouTubeVideo[]\<close> as above.
\<close>

definition searchYouTube_try :: "(string \<Rightarrow> string + 'a) \<Rightarrow> text_outcome \<Rightarrow> thrown + 'a" where
  "searchYouTube_try parse out =
    (case out of
       Rejected e \<Rightarrow> Inl e
     | Response None \<Rightarrow> Inl (Error no_results_message)
     | Response (Some t) \<Rightarrow>
         if t = [] then Inl (Error no_results_message)
         else
           (let startIndex = indexOf t CHR ''['';
                endIndex = lastIndexOf t CHR '']''
            in if startIndex = -1 \<or> endIndex = -1 \<or> endIndex < startIndex
               then Inl (Error unexpected_format_message)
               else (case parse (substring t startIndex (endIndex + 1)) of
                       Inl m \<Rightarrow> Inl (Error malformed_json_message)
                     | Inr v \<Rightarrow> Inr v)))"

definition searchYouTube :: "(string \<Rightarrow> string + 'a) \<Rightarrow> text_outcome \<Rightarrow> thrown + 'a" where
  "searchYouTube parse out =
    (case searchYouTube_try parse out of
       Inr v \<Rightarrow> Inr v
     | Inl (Error m) \<Rightarrow> Inl (Error (''Failed to search YouTube: '' @ m))
     | Inl NonError \<Rightarrow> Inl (Error ''An unknown error occurred during the YouTube search.''))"

section \<open>JSON values, \<^verbatim>\<open>JSON.parse\<close> and schemas\<close>

text \<open>
  The built-in \<^verbatim>\<open>JSON.parse\<close> is not code of the program; the definitions above take it
  as a parameter. To run them on concrete responses, this section models it after the
  JSON grammar (ECMA-404): a value is an object, an array, a string, a number or one of
  \<^verbatim>\<open>true\<close>, \<^verbatim>\<open>false\<close>, \<^verbatim>\<open>null\<close>, with white space between tokens. A number keeps its
  literal and a string the characters between its quotes (escape sequences are checked,
  not decoded), so for a text without a backslash the strings and keys of the result are
  those of the value \<^verbatim>\<open>JSON.parse\<close> returns.
\<close>

datatype json =
  JNull | JBool bool | JNum string | JStr string | JArr "json list"
  | JObj "(string \<times> json) list"

definition is_json_ws :: "char \<Rightarrow> bool" where
  "is_json_ws c = (c = CHR 0x20 \<or> c = CHR 0x09 \<or> c = CHR 0x0A \<or> c = CHR 0x0D)"

definition skip_ws :: "string \<Rightarrow> string" where
  "skip_ws s = dropWhile is_json_ws s"

definition is_digit :: "char \<Rightarrow> bool" where
  "is_digit c = (c \<in> set ''0123456789'')"

definition is_hex :: "char \<Rightarrow> bool" where
  "is_hex c = (c \<in> set ''0123456789abcdefABCDEF'')"

definition is_control :: "char \<Rightarrow> bool" where
  "is_control c = ((of_char c :: nat) < 0x20)"

definition simple_escapes :: string where
  "simple_escapes =
    [CHR 0x22, CHR 0x5C, CHR ''/'', CHR ''b'', CHR ''f'', CHR ''n'', CHR ''r'', CHR ''t'']"

text \<open>The rest of a string after its opening quote: its characters and what follows it.\<close>

fun lex_string :: "string \<Rightarrow> string \<Rightarrow> (string \<times> string) option" where
  "lex_string [] acc = None"
| "lex_string (c # cs) acc =
    (if c = CHR 0x22 then Some (rev acc, cs)
     else if c = CHR 0x5C then
       (case cs of
          [] \<Rightarrow> None
        | e # rest \<Rightarrow>
            if e \<in> set simple_escapes then lex_string rest (e # c # acc)
            else if e = CHR ''u'' \<and> length rest \<ge> 4 \<and> list_all is_hex (take 4 rest)
            then lex_string (drop 4 rest) (rev (take 4 rest) @ e # c # acc)
            else None)
     else if is_control c then None
     else lex_string cs (c # acc))"

definition lex_digits :: "string \<Rightarrow> string \<times> string" where
  "lex_digits s = (takeWhile is_digit s, dropWhile is_digit s)"

definition lex_int :: "string \<Rightarrow> (string \<times> string) option" where
  "lex_int s =
    (case s of
       [] \<Rightarrow> None
     | c # cs \<Rightarrow>
         if c = CHR ''0'' then Some ([c], cs)
         else if is_digit c then Some (c # fst (lex_digits cs), snd (lex_digits cs))
         else None)"

definition lex_frac :: "string \<Rightarrow> (string \<times> string) option" where
  "lex_frac s =
    (case s of
       [] \<Rightarrow> Some ([], s)
     | c # cs \<Rightarrow>
         if c = CHR ''.''
         then (if fst (lex_digits cs) = [] then None
               else Some (c # fst (lex_digits cs), snd (lex_digits cs)))
         else Some ([], s))"

definition lex_sign :: "string \<Rightarrow> string \<times> string" where
  "lex_sign s =
    (case s of
       [] \<Rightarrow> ([], s)
     | c # cs \<Rightarrow> if c = CHR ''+'' \<or> c = CHR ''-'' then ([c], cs) else ([], s))"

definition lex_exp :: "string \<Rightarrow> (string \<times> string) option" where
  "lex_exp s =
    (case s of
       [] \<Rightarrow> Some ([], s)
     | c # cs \<Rightarrow>
         if c = CHR ''e'' \<or> c = CHR ''E''
         then (let sg = lex_sign cs; ds = lex_digits (snd sg)
               in if fst ds = [] then None else Some (c # fst sg @ fst ds, snd ds))
         else Some ([], s))"

definition lex_number :: "string \<Rightarrow> (string \<times> string) option" where
  "lex_number s =
    (let m = (case s of
                [] \<Rightarrow> ([], s)
              | c # cs \<Rightarrow> if c = CHR ''-'' then ([c], cs) else ([], s))
     in case lex_int (snd m) of
          None \<Rightarrow> None
        | Some (i, s1) \<Rightarrow>
            (case lex_frac s1 of
               None \<Rightarrow> None
             | Some (f, s2) \<Rightarrow>
                 (case lex_exp s2 of
                    None \<Rightarrow> None
                  | Some (e, s3) \<Rightarrow> Some (fst m @ i @ f @ e, s3))))"

text \<open>
  Recursive descent. The first argument bounds the number of nested calls; every second
  call consumes a character, so twice the length of the text (plus two) is never
  exhausted.
\<close>

fun parse_value :: "nat \<Rightarrow> string \<Rightarrow> (json \<times> string) option"
  and parse_elements :: "nat \<Rightarrow> string \<Rightarrow> json list \<Rightarrow> (json list \<times> string) option"
  and parse_members ::
    "nat \<Rightarrow> string \<Rightarrow> (string \<times> json) list \<Rightarrow> ((string \<times> json) list \<times> string) option"
where
  "parse_value 0 s = None"
| "parse_value (Suc n) s =
    (case skip_ws s of
       [] \<Rightarrow> None
     | c # cs \<Rightarrow>
         if c = CHR ''{'' then
           (case skip_ws cs of
              [] \<Rightarrow> None
            | d # ds \<Rightarrow>
                if d = CHR ''}'' then Some (JObj [], ds)
                else map_option (\<lambda>(kvs, r). (JObj kvs, r)) (parse_members n cs []))
         else if c = CHR ''['' then
           (case skip_ws cs of
              [] \<Rightarrow> None
            | d # ds \<Rightarrow>
                if d = CHR '']'' then Some (JArr [], ds)
                else map_option (\<lambda>(vs, r). (JArr vs, r)) (parse_elements n cs []))
         else if c = CHR 0x22 then map_option (\<lambda>(t, r). (JStr t, r)) (lex_string cs [])
         else if startsWith (c # cs) ''true'' then Some (JBool True, drop 4 (c # cs))
         else if startsWith (c # cs) ''false'' then Some (JBool False, drop 5 (c # cs))
         else if startsWith (c # cs) ''null'' then Some (JNull, drop 4 (c # cs))
         else map_option (\<lambda>(t, r). (JNum t, r)) (lex_number (c # cs)))"
| "parse_elements 0 s acc = None"
| "parse_elements (Suc n) s acc =
    (case parse_value n s of
       None \<Rightarrow> None
     | Some (v, r) \<Rightarrow>
         (case skip_ws r of
            [] \<Rightarrow> None
          | c # cs \<Rightarrow>
              if c = CHR '','' then parse_elements n cs (acc @ [v])
              else if c = CHR '']'' then Some (acc @ [v], cs)
              else None))"
| "parse_members 0 s acc = None"
| "parse_members (Suc n) s acc =
    (case skip_ws s of
       [] \<Rightarrow> None
     | q # qs \<Rightarrow>
         if q \<noteq> CHR 0x22 then None
         else
           (case lex_string qs [] of
              None \<Rightarrow> None
            | Some (k, r) \<Rightarrow>
                (case skip_ws r of
                   [] \<Rightarrow> None
                 | c # cs \<Rightarrow>
                     if c \<noteq> CHR '':'' then None
                     else
                       (case parse_value n cs of
                          None \<Rightarrow> None
                        | Some (v, r2) \<Rightarrow>
                            (case skip_ws r2 of
                               [] \<Rightarrow> None
                             | d # ds \<Rightarrow>
                                 if d = CHR '','' then parse_members n ds (acc @ [(k, v)])
                                 else if d = CHR ''}'' then Some (acc @ [(k, v)], ds)
                                 else None)))))"

text \<open>
  The whole text must be one value. The message of the \<^verbatim>\<open>SyntaxError\<close> depends on the
  engine; the model has a single one.
\<close>

definition json_parse :: "string \<Rightarrow> string + json" where
  "json_parse s =
    (case parse_value (2 * length s + 2) s of
       None \<Rightarrow> Inl ''Unexpected token''
     | Some (v, r) \<Rightarrow> if skip_ws r = [] then Inr v else Inl ''Unexpected token'')"

text \<open>
  The part of the response schemas the program writes down: strings, arrays with an item
  schema, objects with property schemas and a list of required properties. A later
  duplicate of a key wins, as in a JavaScript object.
\<close>

datatype schema = SString | SArray schema | SObject "(string \<times> schema) list" "string list"

fun validates :: "schema \<Rightarrow> json \<Rightarrow> bool" where
  "validates SString v = (case v of JStr _ \<Rightarrow> True | _ \<Rightarrow> False)"
| "validates (SArray item) v =
    (case v of JArr vs \<Rightarrow> list_all (validates item) vs | _ \<Rightarrow> False)"
| "validates (SObject props required) v =
    (case v of
       JObj kvs \<Rightarrow>
         list_all (\<lambda>k. map_of (rev kvs) k \<noteq> None) required
         \<and> list_all (\<lambda>p. case map_of (rev kvs) (fst p) of
                            None \<Rightarrow> True
                          | Some x \<Rightarrow> validates (snd p) x) props
     | _ \<Rightarrow> False)"

text \<open>\<^verbatim>\<open>moduleSchema\<close>, without the descriptions.\<close>

definition moduleSchema :: schema where
  "moduleSchema =
    SObject
      [(''simple_summary'', SString),
       (''visual_task'',
          SArray (SObject [(''term'', SString), (''image_prompt'', SString)]
                    [''term'', ''image_prompt''])),
       (''concepts'',
          SArray (SObject
            [(''title'', SString),
             (''summary'', SString),
             (''story_scene'', SString),
             (''image_prompt'', SString),
             (''quiz'',
                SArray (SObject
                  [(''question'', SString),
                   (''options'', SArray SString),
                   (''answer'', SString),
                   (''explanation'', SString)]
                  [''question'', ''answer'', ''explanation''])),
             (''flashcards'',
                SArray (SObject [(''front'', SString), (''back'', SString)]
                          [''front'', ''back''])),
             (''badge'',
                SObject [(''name'', SString), (''description'', SString)]
                  [''name'', ''description'']),
             (''narration'', SString),
             (''problem_solving_challenge'',
                SObject [(''scenario'', SString), (''task'', SString)]
                  [''scenario'', ''task''])]
            [''title'', ''summary'', ''story_scene'', ''image_prompt'', ''quiz'',
             ''flashcards'', ''badge'', ''narration'', ''problem_solving_challenge'']))]
      [''simple_summary'', ''visual_task'', ''concepts'']"

text \<open>
  The structure \<^verbatim>\<open>searchYouTube\<close> asks for and casts to: an array of \<^verbatim>\<open>YouTubeVideo\<close>
  objects, each with the three string fields of the interface.
\<close>

definition videoListSchema :: schema where
  "videoListSchema =
    SArray (SObject
      [(''videoId'', SString), (''title'', SString), (''channelName'', SString)]
      [''videoId'', ''title'', ''channelName''])"

section \<open>The score of a finished module (ResultsOverview.tsx)\<close>




text \<open>
  JavaScript numbers are IEEE 754 double-precision values. A finite double is modelled by
  the rational number it denotes, and an arithmetic operation by the exact operation
  followed by \<open>to_double\<close>: rounding to the nearest double, ties to the even significand.
  A double has a 53-bit significand, and below \<open>2\<^sup>-\<^sup>1\<^sup>0\<^sup>2\<^sup>2\<close> a fixed spacing of
  \<open>2\<^sup>-\<^sup>1\<^sup>0\<^sup>7\<^sup>4\<close>. Overflow to infinity is not modelled (the values here stay below 128).
\<close>

definition round_half_even :: "rat \<Rightarrow> int" where
  "round_half_even r =
    (let f = \<lfloor>r\<rfloor>; d = r - of_int f
     in if d < 1 / 2 then f
        else if d > 1 / 2 then f + 1
        else if even f then f else f + 1)"

text \<open>\<open>\<lfloor>log\<^sub>2 x\<rfloor>\<close> for a positive rational, from the bit lengths of its numerator and denominator.\<close>

definition ilog2 :: "rat \<Rightarrow> int" where
  "ilog2 x =
    (let d = bitlen (fst (quotient_of x)) - bitlen (snd (quotient_of x))
     in if 2 powi d \<le> x then d else d - 1)"

definition to_double :: "rat \<Rightarrow> rat" where
  "to_double x =
    (if x = 0 then 0
     else (let e = max (ilog2 \<bar>x\<bar> - 52) (- 1074)
           in of_int (round_half_even (x / 2 powi e)) * 2 powi e))"







section \<open>Starting the generation (App.tsx)\<close>

text \<open>
  The number a JSON number literal denotes: its digits, scaled by the power of ten given by
  the exponent and the length of the fraction. \<^verbatim>\<open>JSON.parse\<close> gives the double nearest to
  it (a literal beyond the largest double gives \<^verbatim>\<open>Infinity\<close>, which is not modelled and
  is not zero either).
\<close>

definition digit_value :: "char \<Rightarrow> nat" where
  "digit_value c = of_char c - 48"

definition digits_value :: "string \<Rightarrow> nat" where
  "digits_value ds = foldl (\<lambda>n c. 10 * n + digit_value c) 0 ds"

definition number_value :: "string \<Rightarrow> rat" where
  "number_value s =
    (let m = (case s of
                [] \<Rightarrow> ([], s)
              | c # cs \<Rightarrow> if c = CHR ''-'' then ([c], cs) else ([], s));
         ip = lex_digits (snd m);
         fp = (case snd ip of
                 [] \<Rightarrow> ([], snd ip)
               | c # cs \<Rightarrow> if c = CHR ''.'' then lex_digits cs else ([], snd ip));
         ex = (case snd fp of
                 [] \<Rightarrow> 0
               | c # cs \<Rightarrow>
                   (let sg = lex_sign cs; n = int (digits_value (fst (lex_digits (snd sg))))
                    in if fst sg = ''-'' then - n else n));
         v = of_nat (digits_value (fst ip @ fst fp)) * 10 powi (ex - int (length (fst fp)))
     in if fst m = [] then v else - v)"

text \<open>
  Reading a property of \<^verbatim>\<open>null\<close> or \<^verbatim>\<open>undefined\<close> throws a \<^verbatim>\<open>TypeError\<close>. Its message
  depends on the engine; this is the one of V8.
\<close>

definition type_error :: "string \<Rightarrow> string \<Rightarrow> thrown" where
  "type_error what key =
    Error (''Cannot read properties of '' @ what @ '' (reading '' @ [CHR 0x27] @ key
             @ [CHR 0x27] @ '')'')"

text \<open>
  \<^verbatim>\<open>data.concepts\<close> on the value \<^verbatim>\<open>JSON.parse\<close> returned; \<^const>\<open>None\<close> is \<^verbatim>\<open>undefined\<close>.
  Only an object can have the property (the last of duplicate keys wins); a number, a
  string, a boolean and an array have none.
\<close>

definition read_concepts :: "json \<Rightarrow> thrown + json option" where
  "read_concepts data =
    (case data of
       JNull \<Rightarrow> Inl (type_error ''null'' ''concepts'')
     | JObj kvs \<Rightarrow> Inr (map_of (rev kvs) ''concepts'')
     | _ \<Rightarrow> Inr None)"

text \<open>
  \<^verbatim>\<open>x.length === 0\<close> for \<^verbatim>\<open>x = data.concepts\<close>. An array and a string have a length; an
  object has one if it has a \<^verbatim>\<open>length\<close> key, and then the comparison holds only for a
  number that is zero; the \<^verbatim>\<open>length\<close> of a number or a boolean is \<^verbatim>\<open>undefined\<close>. A string
  is empty exactly when nothing stands between its quotes, decoded or not.
\<close>

definition length_is_zero :: "json option \<Rightarrow> thrown + bool" where
  "length_is_zero x =
    (case x of
       None \<Rightarrow> Inl (type_error ''undefined'' ''length'')
     | Some JNull \<Rightarrow> Inl (type_error ''null'' ''length'')
     | Some (JArr vs) \<Rightarrow> Inr (length vs = 0)
     | Some (JStr t) \<Rightarrow> Inr (length t = 0)
     | Some (JObj kvs) \<Rightarrow>
         Inr (case map_of (rev kvs) ''length'' of
                Some (JNum lx) \<Rightarrow> to_double (number_value lx) = 0
              | _ \<Rightarrow> False)
     | Some (JBool b) \<Rightarrow> Inr False
     | Some (JNum lx) \<Rightarrow> Inr False)"

text \<open>
  \<^verbatim>\<open>startGeneration(text)\<close>. The first argument is how the awaited
  \<^verbatim>\<open>generateModuleData(text)\<close> settled: \<^const>\<open>Inl\<close> what it threw, \<^const>\<open>Inr\<close> the value it
  returned, which is whatever \<^verbatim>\<open>JSON.parse\<close> gave.
\<close>

definition startGeneration ::
  "thrown + json \<Rightarrow> string \<Rightarrow> json app_state \<Rightarrow> json app_state" where
  "startGeneration result text s =
    (let s1 = s\<lparr>moduleStep := Some Generating, error := None, moduleData := None,
                 quizAnswers := Map.empty, currentConceptIndex := 0,
                 transcription := Some text\<rparr>
     in case result of
          Inl e \<Rightarrow> generation_failed e s1
        | Inr data \<Rightarrow>
            (case read_concepts data of
               Inl e \<Rightarrow> generation_failed e s1
             | Inr c \<Rightarrow>
                 (case length_is_zero c of
                    Inl e \<Rightarrow> generation_failed e s1
                  | Inr zero \<Rightarrow>
                      if zero
                      then generation_failed (Error no_concepts_message) s1
                      else s1\<lparr>moduleData := Some data, moduleStep := Some PreModule\<rparr>)))"

text \<open>The concepts of a parsed result, when its \<^verbatim>\<open>concepts\<close> property is a list.\<close>

definition concept_list :: "json \<Rightarrow> json list option" where
  "concept_list data =
    (case data of
       JObj kvs \<Rightarrow>
         (case map_of (rev kvs) ''concepts'' of Some (JArr vs) \<Rightarrow> Some vs | _ \<Rightarrow> None)
     | _ \<Rightarrow> None)"

section \<open>Sample values\<close>

text \<open>Small concrete values at which the theorems below are instantiated.\<close>

definition sample_question :: QuizQuestion where
  "sample_question =
    \<lparr>question = ''Q'', options = [''a'', ''b''], answer = ''a'', explanation = ''E''\<rparr>"

definition sample_concept :: "nat \<Rightarrow> Concept" where
  "sample_concept n =
    \<lparr>title = ''T'', summary = ''S'', story_scene = ''St'', image_prompt = ''P'',
     quiz = replicate n sample_question, flashcards = [],
     badge = \<lparr>name = ''B'', description = ''D''\<rparr>, narration = ''N'',
     problem_solving_challenge = \<lparr>scenario = ''Sc'', task = ''Ta''\<rparr>\<rparr>"

definition sample_module :: "Concept list \<Rightarrow> ModuleData" where
  "sample_module cs = \<lparr>simple_summary = ''Sum'', visual_task = [], concepts = cs\<rparr>"

definition learning_state :: "Concept list \<Rightarrow> int \<Rightarrow> ModuleData app_state" where
  "learning_state cs i =
    \<lparr>view = Dashboard, error = None, selectedMedia = None, moduleStep = Some Learning,
     moduleData = Some (sample_module cs), transcription = Some ''text'',
     currentConceptIndex = i, quizAnswers = Map.empty\<rparr>"

definition sample_file :: "string \<Rightarrow> nat \<Rightarrow> File" where
  "sample_file ty n = \<lparr>file_name = ''lecture'', file_type = ty, file_size = n\<rparr>"

definition sample_item :: "string \<Rightarrow> string \<Rightarrow> VisualTaskItem" where
  "sample_item t p = \<lparr>vt_term = t, vt_image_prompt = p\<rparr>"

definition distinct_terms_task :: "VisualTaskItem list" where
  "distinct_terms_task =
    [sample_item ''force'' ''p1'', sample_item ''mass'' ''p2'', sample_item ''inertia'' ''p3'']"

definition duplicate_terms_task :: "VisualTaskItem list" where
  "duplicate_terms_task = [sample_item ''force'' ''p1'', sample_item ''force'' ''p2'']"

definition images_ok :: "nat \<Rightarrow> thrown + string" where
  "images_ok i = Inr ''data:image/png;base64,AAAA''"

definition second_image_fails :: "nat \<Rightarrow> thrown + string" where
  "second_image_fails i =
    (if i = 1 then Inl (Error ''Failed to generate image: quota'')
     else Inr ''data:image/png;base64,AAAA'')"


text \<open>The initial state of an application whose module cell has the declared type.\<close>

definition idle_state :: "ModuleData app_state" where
  "idle_state = initial_state"

definition dashboard_state :: "json app_state" where
  "dashboard_state =
    \<lparr>view = Dashboard, error = None,
     selectedMedia = Some (LocalFile (sample_file ''audio/mpeg'' 1000)), moduleStep = None,
     moduleData = None, transcription = None, currentConceptIndex = 0,
     quizAnswers = Map.empty\<rparr>"

section \<open>Navigation, reset and answer recording\<close>

text \<open>
  C2. With a module loaded and the current index inside \<open>[0, conceptCount - 1]\<close>,
  \<^verbatim>\<open>next()\<close> adds one exactly when the index is below the last one and \<^verbatim>\<open>prev()\<close>
  subtracts one exactly when it is above zero; at the boundary each leaves the whole state
  as it was, and after either call the index is still inside \<open>[0, conceptCount - 1]\<close>.
\<close>

theorem concept_index_stays_in_range:
  assumes "moduleData s = Some m"
    and "0 \<le> currentConceptIndex s"
    and "currentConceptIndex s \<le> int (length (concepts m)) - 1"
  shows "currentConceptIndex (handleNextConcept s) =
           (if currentConceptIndex s < int (length (concepts m)) - 1
            then currentConceptIndex s + 1 else currentConceptIndex s)
       \<and> currentConceptIndex (handlePrevConcept s) =
           (if currentConceptIndex s > 0
            then currentConceptIndex s - 1 else currentConceptIndex s)
       \<and> (currentConceptIndex s = int (length (concepts m)) - 1 \<longrightarrow> handleNextConcept s = s)
       \<and> (currentConceptIndex s = 0 \<longrightarrow> handlePrevConcept s = s)
       \<and> 0 \<le> currentConceptIndex (handleNextConcept s)
       \<and> currentConceptIndex (handleNextConcept s) \<le> int (length (concepts m)) - 1
       \<and> 0 \<le> currentConceptIndex (handlePrevConcept s)
       \<and> currentConceptIndex (handlePrevConcept s) \<le> int (length (concepts m)) - 1"
  using assms by (auto simp add: handleNextConcept_def handlePrevConcept_def)

theorem concept_index_stays_in_range_witness:
  "moduleData (learning_state [sample_concept 3, sample_concept 3] 1)
     = Some (sample_module [sample_concept 3, sample_concept 3])
   \<and> handleNextConcept (learning_state [sample_concept 3, sample_concept 3] 1)
       = learning_state [sample_concept 3, sample_concept 3] 1
   \<and> currentConceptIndex (handlePrevConcept (learning_state [sample_concept 3, sample_concept 3] 1)) = 0
   \<and> currentConceptIndex (handleNextConcept (learning_state [sample_concept 3, sample_concept 3] 0)) = 1
   \<and> handlePrevConcept (learning_state [sample_concept 3, sample_concept 3] 0)
       = learning_state [sample_concept 3, sample_concept 3] 0"
  using concept_index_stays_in_range
          [of "learning_state [sample_concept 3, sample_concept 3] 1"
              "sample_module [sample_concept 3, sample_concept 3]"]
        concept_index_stays_in_range
          [of "learning_state [sample_concept 3, sample_concept 3] 0"
              "sample_module [sample_concept 3, sample_concept 3]"]
  by (simp add: learning_state_def sample_module_def)

text \<open>
  C4, as the code has it. When the \<^verbatim>\<open>concepts\<close> property of the generation result is an
  empty list, \<^verbatim>\<open>startGeneration\<close> ends in the error view with the "no learning concepts"
  message, stores no module and does not reach the pre-module step. When it is a list,
  the pre-module step is reached exactly when the list has at least one concept, and the
  result is then the stored module. In general the pre-module step is reached exactly
  when \<^verbatim>\<open>data.concepts.length === 0\<close> evaluates to false without throwing; in every other
  case (generation failed, a \<^verbatim>\<open>TypeError\<close>, zero length) the error view is shown and no
  module is stored.
\<close>

theorem empty_concept_list_is_an_error:
  "(concept_list data = Some [] \<longrightarrow>
      view (startGeneration (Inr data) tr s) = ErrorView
    \<and> error (startGeneration (Inr data) tr s) = Some no_concepts_message
    \<and> moduleData (startGeneration (Inr data) tr s) = None
    \<and> moduleStep (startGeneration (Inr data) tr s) = Some Generating)
   \<and> (concept_list data = Some cs \<longrightarrow>
        (moduleStep (startGeneration (Inr data) tr s) = Some PreModule \<longleftrightarrow> cs \<noteq> [])
      \<and> (cs \<noteq> [] \<longrightarrow> moduleData (startGeneration (Inr data) tr s) = Some data))
   \<and> (moduleStep (startGeneration result tr s) = Some PreModule
        \<longleftrightarrow> (\<exists>d c. result = Inr d \<and> read_concepts d = Inr c \<and> length_is_zero c = Inr False))
   \<and> (moduleStep (startGeneration result tr s) \<noteq> Some PreModule \<longrightarrow>
        view (startGeneration result tr s) = ErrorView
      \<and> moduleStep (startGeneration result tr s) = Some Generating
      \<and> moduleData (startGeneration result tr s) = None)"
proof -
  have list: "read_concepts data = Inr (Some (JArr vs)) \<and> length_is_zero (Some (JArr vs)) = Inr (vs = [])"
    if "concept_list data = Some vs" for vs
    using that
    by (auto simp add: concept_list_def read_concepts_def length_is_zero_def
          split: json.splits option.splits)
  have 1: "concept_list data = Some [] \<longrightarrow>
      view (startGeneration (Inr data) tr s) = ErrorView
    \<and> error (startGeneration (Inr data) tr s) = Some no_concepts_message
    \<and> moduleData (startGeneration (Inr data) tr s) = None
    \<and> moduleStep (startGeneration (Inr data) tr s) = Some Generating"
    using list [of "[]"] by (simp add: startGeneration_def generation_failed_def Let_def)
  have 2: "concept_list data = Some cs \<longrightarrow>
        (moduleStep (startGeneration (Inr data) tr s) = Some PreModule \<longleftrightarrow> cs \<noteq> [])
      \<and> (cs \<noteq> [] \<longrightarrow> moduleData (startGeneration (Inr data) tr s) = Some data)"
    using list [of cs] by (simp add: startGeneration_def generation_failed_def Let_def)
  have 3: "moduleStep (startGeneration result tr s) = Some PreModule
        \<longleftrightarrow> (\<exists>d c. result = Inr d \<and> read_concepts d = Inr c \<and> length_is_zero c = Inr False)"
    by (auto simp add: startGeneration_def generation_failed_def Let_def
          split: sum.splits if_splits)
  have 4: "moduleStep (startGeneration result tr s) \<noteq> Some PreModule \<longrightarrow>
        view (startGeneration result tr s) = ErrorView
      \<and> moduleStep (startGeneration result tr s) = Some Generating
      \<and> moduleData (startGeneration result tr s) = None"
    by (auto simp add: startGeneration_def generation_failed_def Let_def
          split: sum.splits if_splits)
  from 1 2 3 4 show ?thesis by blast
qed

theorem empty_concept_list_is_an_error_witness:
  \<open>generateModuleData json_parse (Response (Some ''{"concepts": []}''))
     = Inr (JObj [(''concepts'', JArr [])])
   \<and> concept_list (JObj [(''concepts'', JArr [])]) = Some []
   \<and> view (startGeneration (Inr (JObj [(''concepts'', JArr [])])) ''t'' dashboard_state)
       = ErrorView
   \<and> moduleStep (startGeneration (Inr (JObj [(''concepts'', JArr [])])) ''t'' dashboard_state)
       = Some Generating
   \<and> concept_list (JObj [(''concepts'', JArr [JObj []])]) = Some [JObj []]
   \<and> moduleStep (startGeneration (Inr (JObj [(''concepts'', JArr [JObj []])])) ''t''
                   dashboard_state)
       = Some PreModule
   \<and> moduleData (startGeneration (Inr (JObj [(''concepts'', JArr [JObj []])])) ''t''
                   dashboard_state)
       = Some (JObj [(''concepts'', JArr [JObj []])])
   \<and> view (startGeneration (Inl (Error ''Failed to generate module concepts: offline''))
              ''t'' dashboard_state)
       = ErrorView\<close>
proof -
  have p: \<open>generateModuleData json_parse (Response (Some ''{"concepts": []}''))
     = Inr (JObj [(''concepts'', JArr [])])\<close>
    by code_simp
  have a: "concept_list (JObj [(''concepts'', JArr [])]) = Some []"
    by (simp add: concept_list_def)
  have b: "concept_list (JObj [(''concepts'', JArr [JObj []])]) = Some [JObj []]"
    by (simp add: concept_list_def)
  have c: "moduleStep (startGeneration (Inl (Error ''Failed to generate module concepts: offline''))
              ''t'' dashboard_state) \<noteq> Some PreModule"
    by (simp add: startGeneration_def generation_failed_def)
  show ?thesis
    using p a b c
      empty_concept_list_is_an_error
        [where data = "JObj [(''concepts'', JArr [])]" and cs = "[]" and tr = "''t''"
           and s = dashboard_state
           and result = "Inl (Error ''Failed to generate module concepts: offline'')"]
      empty_concept_list_is_an_error
        [where data = "JObj [(''concepts'', JArr [JObj []])]" and cs = "[JObj []]"
           and tr = "''t''" and s = dashboard_state
           and result = "Inl (Error ''Failed to generate module concepts: offline'')"]
    by simp
qed

text \<open>
  C4 as stated fails on a result whose \<^verbatim>\<open>concepts\<close> is not a list: for a string or a
  number the length test does not hold, and the pre-module step is reached with a module
  that has no concept at all.
\<close>

theorem unchecked_concepts_reach_pre_module:
  \<open>generateModuleData json_parse (Response (Some ''{"concepts": "x"}''))
     = Inr (JObj [(''concepts'', JStr ''x'')])
   \<and> concept_list (JObj [(''concepts'', JStr ''x'')]) = None
   \<and> moduleStep (startGeneration (Inr (JObj [(''concepts'', JStr ''x'')])) ''t'' dashboard_state)
       = Some PreModule
   \<and> view (startGeneration (Inr (JObj [(''concepts'', JStr ''x'')])) ''t'' dashboard_state)
       = Dashboard
   \<and> generateModuleData json_parse (Response (Some ''{"concepts": 5}''))
     = Inr (JObj [(''concepts'', JNum ''5'')])
   \<and> moduleStep (startGeneration (Inr (JObj [(''concepts'', JNum ''5'')])) ''t'' dashboard_state)
       = Some PreModule\<close>
  by code_simp

text \<open>
  C5. In every state \<^verbatim>\<open>resetModule()\<close> keeps the selected media and the transcription
  (and the view and error), and clears the module data, the quiz answers, the module step
  and sets the concept index to 0. \<^verbatim>\<open>resetApp()\<close> (\<^verbatim>\<open>resetState\<close>) clears the selected
  media, the transcription and the error as well: its result is the initial idle state.
\<close>

theorem resets_clear_what_they_should:
  "selectedMedia (resetModule s) = selectedMedia s
   \<and> transcription (resetModule s) = transcription s
   \<and> view (resetModule s) = view s
   \<and> error (resetModule s) = error s
   \<and> moduleData (resetModule s) = None
   \<and> quizAnswers (resetModule s) = Map.empty
   \<and> currentConceptIndex (resetModule s) = 0
   \<and> moduleStep (resetModule s) = None
   \<and> resetState s = initial_state
   \<and> selectedMedia (resetState s) = None
   \<and> transcription (resetState s) = None
   \<and> error (resetState s) = None
   \<and> view (resetState s) = Idle"
  by (simp add: resetModule_def resetState_def initial_state_def)

text \<open>
  C6. A selected file whose media type starts with \<^verbatim>\<open>audio/\<close> or \<^verbatim>\<open>video/\<close> and whose
  size is at most 20 MB (20 * 1024 * 1024 bytes) is accepted: it becomes the selected
  media, the view becomes the dashboard and no error is shown. Any other file is rejected:
  the component shows the type message, or the size message for an audio or video file
  above the limit, and the application state (media selection, view) is unchanged.
\<close>

theorem file_validation:
  "((startsWith (file_type f) ''audio/'' \<or> startsWith (file_type f) ''video/'')
      \<and> file_size f \<le> 20 * 1024 * 1024
     \<longrightarrow> handleFileChange (Some (f # fs)) (e, app)
           = (None, app\<lparr>selectedMedia := Some (LocalFile f), view := Dashboard, error := None\<rparr>))
   \<and> (\<not> ((startsWith (file_type f) ''audio/'' \<or> startsWith (file_type f) ''video/'')
          \<and> file_size f \<le> 20 * 1024 * 1024)
     \<longrightarrow> handleFileChange (Some (f # fs)) (e, app)
           = (Some (if startsWith (file_type f) ''audio/'' \<or> startsWith (file_type f) ''video/''
                    then too_large_message else invalid_type_message), app))"
  by (auto simp add: handleFileChange_def handleFileSelect_def MAX_FILE_SIZE_BYTES_def
        MAX_FILE_SIZE_MB_def)

theorem file_validation_witness:
  "handleFileChange (Some [sample_file ''audio/mpeg'' 20971520]) (Some ''old'', idle_state)
     = (None, idle_state\<lparr>selectedMedia := Some (LocalFile (sample_file ''audio/mpeg'' 20971520)),
                         view := Dashboard, error := None\<rparr>)
   \<and> handleFileChange (Some [sample_file ''video/mp4'' 20971521]) (None, idle_state)
     = (Some too_large_message, idle_state)
   \<and> handleFileChange (Some [sample_file ''text/plain'' 10]) (None, idle_state)
     = (Some invalid_type_message, idle_state)"
  using file_validation [of "sample_file ''audio/mpeg'' 20971520" "[]" "Some ''old''" idle_state]
        file_validation [of "sample_file ''video/mp4'' 20971521" "[]" None idle_state]
        file_validation [of "sample_file ''text/plain'' 10" "[]" None idle_state]
  by (simp add: sample_file_def startsWith_def idle_state_def)

text \<open>
  C7. Recording an answer twice with the same arguments gives the same state as recording
  it once; after recording, the entry of that question is the recorded one, and the entry
  of every other (concept, question) pair is what it was before.
\<close>

theorem record_answer_idempotent:
  "handleAnswerSubmit c q sel ok (handleAnswerSubmit c q sel ok s)
     = handleAnswerSubmit c q sel ok s
   \<and> answer_at (quizAnswers (handleAnswerSubmit c q sel ok s)) c q
     = Some \<lparr>selected = sel, isCorrect = ok\<rparr>
   \<and> (\<forall>c' q'. (c', q') \<noteq> (c, q) \<longrightarrow>
        answer_at (quizAnswers (handleAnswerSubmit c q sel ok s)) c' q'
          = answer_at (quizAnswers s) c' q')"
  by (auto simp add: handleAnswerSubmit_def upsert_answer_def answer_at_def
        split: option.splits)

theorem record_answer_idempotent_witness:
  "handleAnswerSubmit 0 1 ''a'' True (handleAnswerSubmit 0 1 ''a'' True idle_state)
     = handleAnswerSubmit 0 1 ''a'' True idle_state
   \<and> answer_at (quizAnswers (handleAnswerSubmit 0 1 ''a'' True idle_state)) 0 1
     = Some \<lparr>selected = ''a'', isCorrect = True\<rparr>
   \<and> answer_at (quizAnswers (handleAnswerSubmit 0 1 ''a'' True idle_state)) 0 2 = None"
  using record_answer_idempotent [of 0 1 "''a''" True idle_state]
  by (simp add: idle_state_def initial_state_def answer_at_def)

section \<open>Image generation: the retry loop\<close>

lemma includes_429: "str_includes (pre @ ''429'' @ post) ''429''"
  unfolding str_includes_def list_ex_iff
  by (rule bexI [where x = "length pre"]) auto

lemma rate_limited_step:
  assumes "image_attempt (service n) = Inl e" and "is_rate_limit e"
  shows "generateImage_loop service (Suc r) backoff n evs =
         generateImage_loop service r (backoff * 2) (Suc n)
           (evs @ [CallGenerateImages, Delay backoff])"
  using assms by simp

text \<open>
  A failure that is not a rate-limit signal ends the loop at once: one call, no delay, and
  the error is rethrown with the prefix of \<^verbatim>\<open>generateImage\<close>.
\<close>

lemma other_failure_is_terminal:
  assumes "image_attempt (service 0) = Inl e" and "\<not> is_rate_limit e"
  shows "generateImage service =
         (Inl (case e of
                 Error m \<Rightarrow> Error (''Failed to generate image: '' @ m)
               | NonError \<Rightarrow> Error ''An unknown error occurred during image generation.''),
          [CallGenerateImages])"
  using assms by (simp add: generateImage_def numeral_3_eq_3)

text \<open>
  C3. When every call of the image service fails with an error whose message contains
  \<^verbatim>\<open>429\<close>, \<^verbatim>\<open>generateImage\<close> makes three calls in all (the first attempt and two
  retries), waits 1000 ms, 2000 ms and 4000 ms after the first, second and third failure,
  and then throws the "multiple retries" error: the third wait is followed by no call.
\<close>

theorem rate_limited_run:
  "generateImage (\<lambda>n. ImagesRejected (Error (pre n @ ''429'' @ post n)))
     = (Inl (Error retries_exhausted_message),
        [CallGenerateImages, Delay 1000, CallGenerateImages, Delay 2000,
         CallGenerateImages, Delay 4000])
   \<and> calls_made (snd (generateImage (\<lambda>n. ImagesRejected (Error (pre n @ ''429'' @ post n)))))
     = 3"
proof -
  let ?service = "\<lambda>n. ImagesRejected (Error (pre n @ ''429'' @ post n))"
  have a: "image_attempt (?service n) = Inl (Error (pre n @ ''429'' @ post n))" for n
    by (simp add: image_attempt_def)
  have b: "is_rate_limit (Error (pre n @ ''429'' @ post n))" for n
    unfolding is_rate_limit_def thrown.case by (rule includes_429)
  have "generateImage ?service
          = (Inl (Error retries_exhausted_message),
             [CallGenerateImages, Delay 1000, CallGenerateImages, Delay 2000,
              CallGenerateImages, Delay 4000])"
    unfolding generateImage_def numeral_3_eq_3
    by (simp only: rate_limited_step [OF a b] generateImage_loop.simps(1)) simp
  then show ?thesis by (simp add: calls_made_def)
qed

section \<open>The start gate of the pre-module view\<close>

lemma handleDrop_keeps_error [simp]:
  "pq_error (handleDrop vt t p st) = pq_error st"
  by (simp add: handleDrop_def Let_def)

lemma handleDrop_matched_cases:
  "matchedPairs (handleDrop vt t p st) = matchedPairs st
   \<or> (matchedPairs (handleDrop vt t p st) = matchedPairs st @ [t]
       \<and> t \<notin> set (matchedPairs st) \<and> t \<in> vt_term ` set vt)"
proof (cases "find (\<lambda>item. vt_image_prompt item = p) vt")
  case None
  then show ?thesis by (simp add: handleDrop_def Let_def)
next
  case (Some item)
  then have "item \<in> set vt" by (auto simp add: find_Some_iff)
  with Some show ?thesis by (auto simp add: handleDrop_def Let_def)
qed

lemma handleDrop_matched_ok:
  "matched_ok vt st \<Longrightarrow> matched_ok vt (handleDrop vt t p st)"
  using handleDrop_matched_cases [of vt t p st] by (auto simp add: matched_ok_def)

lemma drops_matched_ok:
  "matched_ok vt st \<Longrightarrow>
   matched_ok vt (foldl (\<lambda>st (t, p). handleDrop vt t p st) st drops)"
  by (induction drops arbitrary: st) (auto simp add: handleDrop_matched_ok)

lemma drops_keep_error:
  "pq_error (foldl (\<lambda>st (t, p). handleDrop vt t p st) st drops) = pq_error st"
  by (induction drops arbitrary: st) auto

lemma fetch_loop_matched [simp]:
  "matchedPairs (fetch_loop items gen i st) = matchedPairs st"
  by (induction items gen i st rule: fetch_loop.induct) (auto split: sum.splits)

lemma fetch_loop_error:
  "pq_error (fetch_loop items gen i st) =
     (if \<forall>k<length items. \<exists>url. gen (i + k) = Inr url then pq_error st
      else Some images_failed_message)"
proof (induction items gen i st rule: fetch_loop.induct)
  case (1 gen i st)
  then show ?case by simp
next
  case (2 item items gen i st)
  show ?case
  proof (cases "gen i")
    case (Inl e)
    then have "\<not> (\<forall>k<length (item # items). \<exists>url. gen (i + k) = Inr url)"
      by (auto intro: exI [where x = 0])
    then have "(if \<forall>k<length (item # items). \<exists>url. gen (i + k) = Inr url then pq_error st
                else Some images_failed_message) = Some images_failed_message"
      by (rule if_not_P)
    moreover have "pq_error (fetch_loop (item # items) gen i st) = Some images_failed_message"
      using Inl by simp
    ultimately show ?thesis by (rule ssubst)
  next
    case (Inr url)
    let ?st = "st\<lparr>imageUrls := (imageUrls st)(vt_image_prompt item \<mapsto> url)\<rparr>"
    have eq: "(\<forall>k<length (item # items). \<exists>u. gen (i + k) = Inr u)
          \<longleftrightarrow> (\<forall>k<length items. \<exists>u. gen (Suc i + k) = Inr u)"
      using Inr by (auto simp add: less_Suc_eq_0_disj)
    have step: "fetch_loop (item # items) gen i st = fetch_loop items gen (Suc i) ?st"
      using Inr by simp
    have ih: "pq_error (fetch_loop items gen (Suc i) ?st) =
      (if \<forall>k<length items. \<exists>u. gen (Suc i + k) = Inr u then pq_error ?st
       else Some images_failed_message)"
      using Inr by (rule "2.IH")
    have keep: "pq_error ?st = pq_error st" by simp
    show ?thesis unfolding step ih eq keep ..
  qed
qed

lemma complete_iff_all_matched:
  assumes "distinct (map vt_term vt)" and "matched_ok vt st"
  shows "isTaskComplete vt st \<longleftrightarrow> all_terms_matched vt st"
proof -
  have sub: "set (matchedPairs st) \<subseteq> set (map vt_term vt)"
    and dm: "distinct (matchedPairs st)"
    using assms(2) by (auto simp add: matched_ok_def)
  have cm: "card (set (matchedPairs st)) = length (matchedPairs st)"
    using dm by (rule distinct_card)
  have ct: "card (set (map vt_term vt)) = length vt"
    using distinct_card [OF assms(1)] by simp
  show ?thesis
  proof
    assume "isTaskComplete vt st"
    then have "card (set (matchedPairs st)) = card (set (map vt_term vt))"
      using cm ct by (simp add: isTaskComplete_def)
    then have "set (matchedPairs st) = set (map vt_term vt)"
      using sub by (simp add: card_subset_eq)
    then show "all_terms_matched vt st"
      by (auto simp add: all_terms_matched_def list_all_iff)
  next
    assume "all_terms_matched vt st"
    then have "set (map vt_term vt) \<subseteq> set (matchedPairs st)"
      by (auto simp add: all_terms_matched_def list_all_iff)
    with sub have "set (matchedPairs st) = set (map vt_term vt)" by auto
    then show "isTaskComplete vt st"
      using cm ct by (simp add: isTaskComplete_def)
  qed
qed

lemma pq_after_matched_ok: "matched_ok vt (pq_after vt gen drops)"
  unfolding pq_after_def
  by (rule drops_matched_ok) (simp add: matched_ok_def fetchImages_def pq_initial_def)

lemma pq_after_error:
  "pq_error (pq_after vt gen drops) =
     (if \<forall>k<length vt. \<exists>url. gen k = Inr url then None else Some images_failed_message)"
  by (simp add: pq_after_def drops_keep_error fetchImages_def fetch_loop_error)

text \<open>
  C10, as the code has it. When the terms of the visual task are pairwise distinct, then
  after any sequence of drops the start button is disabled exactly when some term is not
  yet matched and every image of the task was generated; and when the generation of some
  image fails, the button is enabled with no matched pair at all.
\<close>

theorem start_gate:
  assumes "distinct (map vt_term visualTask)"
  shows "(start_disabled visualTask (pq_after visualTask gen drops)
          \<longleftrightarrow> \<not> all_terms_matched visualTask (pq_after visualTask gen drops)
              \<and> (\<forall>k<length visualTask. \<exists>url. gen k = Inr url))
       \<and> ((\<exists>k<length visualTask. \<exists>e. gen k = Inl e)
            \<longrightarrow> matchedPairs (pq_after visualTask gen []) = []
              \<and> \<not> start_disabled visualTask (pq_after visualTask gen []))"
proof -
  have t: "truthy (pq_error (pq_after visualTask gen ds))
           \<longleftrightarrow> \<not> (\<forall>k<length visualTask. \<exists>url. gen k = Inr url)" for ds
    by (simp add: pq_after_error truthy_def images_failed_message_def)
  have c: "isTaskComplete visualTask (pq_after visualTask gen ds)
           \<longleftrightarrow> all_terms_matched visualTask (pq_after visualTask gen ds)" for ds
    using assms pq_after_matched_ok by (rule complete_iff_all_matched)
  have m: "matchedPairs (pq_after visualTask gen []) = []"
    by (simp add: pq_after_def fetchImages_def pq_initial_def)
  have "(\<exists>k<length visualTask. \<exists>e. gen k = Inl e)
        \<Longrightarrow> \<not> (\<forall>k<length visualTask. \<exists>url. gen k = Inr url)"
    by auto
  then show ?thesis
    unfolding start_disabled_def t c using m by blast
qed

theorem start_gate_witness:
  "distinct (map vt_term distinct_terms_task)
   \<and> start_disabled distinct_terms_task
       (pq_after distinct_terms_task images_ok [(''force'', ''p1''), (''mass'', ''p1'')])
   \<and> \<not> all_terms_matched distinct_terms_task
       (pq_after distinct_terms_task images_ok [(''force'', ''p1''), (''mass'', ''p1'')])
   \<and> second_image_fails 1 = Inl (Error ''Failed to generate image: quota'')
   \<and> matchedPairs (pq_after distinct_terms_task second_image_fails []) = []
   \<and> \<not> start_disabled distinct_terms_task (pq_after distinct_terms_task second_image_fails [])"
proof -
  have d: "distinct (map vt_term distinct_terms_task)"
    by (simp add: distinct_terms_task_def sample_item_def)
  have ok: "\<forall>k<length distinct_terms_task. \<exists>url. images_ok k = Inr url"
    by (simp add: images_ok_def)
  have nm: "\<not> all_terms_matched distinct_terms_task
       (pq_after distinct_terms_task images_ok [(''force'', ''p1''), (''mass'', ''p1'')])"
    by (simp add: all_terms_matched_def pq_after_def handleDrop_def distinct_terms_task_def
          sample_item_def fetchImages_def pq_initial_def images_ok_def)
  have f: "second_image_fails 1 = Inl (Error ''Failed to generate image: quota'')"
    by (simp add: second_image_fails_def)
  then have ex: "\<exists>k<length distinct_terms_task. \<exists>e. second_image_fails k = Inl e"
    by (auto simp add: distinct_terms_task_def intro!: exI [where x = 1])
  show ?thesis
    using d ok nm f ex
      start_gate [OF d, of images_ok "[(''force'', ''p1''), (''mass'', ''p1'')]"]
      start_gate [OF d, of second_image_fails "[]"]
    by blast
qed

text \<open>
  C10 as stated fails when two items of the visual task carry the same term: after one
  drop every term is matched and no image failed, and the button is still disabled (and
  no further drop can enable it).
\<close>

theorem start_gate_duplicate_terms:
  "all_terms_matched duplicate_terms_task
     (pq_after duplicate_terms_task images_ok [(''force'', ''p1'')])
   \<and> pq_error (pq_after duplicate_terms_task images_ok [(''force'', ''p1'')]) = None
   \<and> start_disabled duplicate_terms_task
       (pq_after duplicate_terms_task images_ok [(''force'', ''p1'')])"
  by (simp add: all_terms_matched_def start_disabled_def isTaskComplete_def truthy_def
        pq_after_def handleDrop_def duplicate_terms_task_def sample_item_def fetchImages_def
        pq_initial_def images_ok_def)

section \<open>Parsing the responses of the text service\<close>

lemma indexOf_absent: "c \<notin> set s \<Longrightarrow> indexOf s c = -1"
  by (induction s) auto

lemma indexOf_first: "c \<notin> set pre \<Longrightarrow> indexOf (pre @ c # rest) c = int (length pre)"
  by (induction pre) auto

lemma indexOf_present: "indexOf s c \<noteq> -1 \<Longrightarrow> c \<in> set s"
  using indexOf_absent by blast

lemma lastIndexOf_last:
  assumes "c \<notin> set post"
  shows "lastIndexOf (xs @ c # post) c = int (length xs)"
proof -
  have r: "rev (xs @ c # post) = rev post @ c # rev xs" by simp
  have "indexOf (rev (xs @ c # post)) c = int (length post)"
    unfolding r using assms by (simp add: indexOf_first)
  then show ?thesis by (simp add: lastIndexOf_def)
qed

lemma lastIndexOf_present: "lastIndexOf s c \<noteq> -1 \<Longrightarrow> c \<in> set s"
  using indexOf_present [of "rev s" c] by (auto simp add: lastIndexOf_def split: if_splits)

lemma substring_middle:
  "substring (pre @ mid @ post) (int (length pre)) (int (length pre + length mid)) = mid"
proof -
  let ?n = "int (length (pre @ mid @ post))"
  have a: "min (max (int (length pre)) 0) ?n = int (length pre)" by simp
  have b: "min (max (int (length pre + length mid)) 0) ?n = int (length pre + length mid)"
    by simp
  have c: "min (int (length pre)) (int (length pre + length mid)) = int (length pre)"
    and d: "max (int (length pre)) (int (length pre + length mid)) = int (length pre + length mid)"
    by simp_all
  show ?thesis
    unfolding substring_def Let_def a b c d by simp
qed

lemma bracketed_region:
  assumes "CHR ''['' \<notin> set pre" and "CHR '']'' \<notin> set post"
  shows "indexOf (pre @ CHR ''['' # mid @ CHR '']'' # post) CHR ''['' = int (length pre)"
    and "lastIndexOf (pre @ CHR ''['' # mid @ CHR '']'' # post) CHR '']'' = int (length pre) + int (length mid) + 1"
    and "substring (pre @ CHR ''['' # mid @ CHR '']'' # post) (int (length pre)) (int (length pre) + int (length mid) + 1 + 1)
          = CHR ''['' # mid @ [CHR '']'']"
proof -
  show "indexOf (pre @ CHR ''['' # mid @ CHR '']'' # post) CHR ''['' = int (length pre)"
    using assms(1) by (rule indexOf_first)
  have "lastIndexOf ((pre @ CHR ''['' # mid) @ CHR '']'' # post) CHR '']'' = int (length (pre @ CHR ''['' # mid))"
    using assms(2) by (rule lastIndexOf_last)
  then show "lastIndexOf (pre @ CHR ''['' # mid @ CHR '']'' # post) CHR '']'' = int (length pre) + int (length mid) + 1"
    by simp
  have "substring (pre @ (CHR ''['' # mid @ [CHR '']'']) @ post) (int (length pre)) (int (length pre + length (CHR ''['' # mid @ [CHR '']''])))
          = CHR ''['' # mid @ [CHR '']'']"
    by (rule substring_middle)
  then show "substring (pre @ CHR ''['' # mid @ CHR '']'' # post) (int (length pre)) (int (length pre) + int (length mid) + 1 + 1)
          = CHR ''['' # mid @ [CHR '']'']"
    by (simp add: add.commute add.left_commute)
qed

lemma region_exists:
  assumes s: "indexOf t CHR ''['' \<noteq> -1" and e: "lastIndexOf t CHR '']'' \<noteq> -1"
    and le: "indexOf t CHR ''['' \<le> lastIndexOf t CHR '']''"
  shows "\<exists>pre mid post. t = pre @ CHR ''['' # mid @ CHR '']'' # post"
proof -
  from s have "CHR ''['' \<in> set t" by (rule indexOf_present)
  then obtain pre rest where t1: "t = pre @ CHR ''['' # rest" and np: "CHR ''['' \<notin> set pre"
    by (auto dest: split_list_first)
  from e have "CHR '']'' \<in> set t" by (rule lastIndexOf_present)
  then obtain xs post where t2: "t = xs @ CHR '']'' # post" and nq: "CHR '']'' \<notin> set post"
    by (auto dest: split_list_last)
  have i1: "indexOf t CHR ''['' = int (length pre)"
    unfolding t1 using np by (rule indexOf_first)
  have i2: "lastIndexOf t CHR '']'' = int (length xs)"
    unfolding t2 using nq by (rule lastIndexOf_last)
  from le i1 i2 have len: "length pre \<le> length xs" by simp
  have eq: "pre @ CHR ''['' # rest = xs @ CHR '']'' # post" using t1 t2 by simp
  from eq len obtain us where us: "xs = pre @ us" "CHR ''['' # rest = us @ CHR '']'' # post"
    by (auto simp add: append_eq_append_conv2 dest: arg_cong [where f = length])
  from us(2) obtain mid where "us = CHR ''['' # mid"
    by (cases us) auto
  with us t2 have "t = pre @ CHR ''['' # mid @ CHR '']'' # post" by simp
  then show ?thesis by blast
qed

text \<open>
  C8, as the code has it. For a non-empty response text that has a \<^verbatim>\<open>[\<close> with a \<^verbatim>\<open>]\<close>
  somewhere after it, \<^verbatim>\<open>searchYouTube\<close> parses exactly the part from the first \<^verbatim>\<open>[\<close> to the
  last \<^verbatim>\<open>]\<close>: when that part is not valid JSON it throws the malformed-JSON error, and
  otherwise it returns the parsed value as it is, whatever its shape. For a non-empty text
  with no such region it throws the unexpected-format error.
\<close>

theorem search_region:
  "(t = pre @ CHR ''['' # mid @ CHR '']'' # post \<and> CHR ''['' \<notin> set pre \<and> CHR '']'' \<notin> set post
      \<longrightarrow> searchYouTube parse (Response (Some t))
            = (case parse (CHR ''['' # mid @ [CHR '']'']) of
                 Inl m \<Rightarrow> Inl (Error (''Failed to search YouTube: '' @ malformed_json_message))
               | Inr v \<Rightarrow> Inr v))
   \<and> (t \<noteq> [] \<and> (\<nexists>pre mid post. t = pre @ CHR ''['' # mid @ CHR '']'' # post)
      \<longrightarrow> searchYouTube parse (Response (Some t))
            = Inl (Error (''Failed to search YouTube: '' @ unexpected_format_message)))"
proof (intro conjI impI)
  assume a: "t = pre @ CHR ''['' # mid @ CHR '']'' # post \<and> CHR ''['' \<notin> set pre \<and> CHR '']'' \<notin> set post"
  then have ne: "t \<noteq> []" by auto
  note b = bracketed_region [of pre post mid]
  have i1: "indexOf t CHR ''['' = int (length pre)" using a b(1) by simp
  have i2: "lastIndexOf t CHR '']'' = int (length pre) + int (length mid) + 1" using a b(2) by simp
  have sb: "substring t (indexOf t CHR ''['') (lastIndexOf t CHR '']'' + 1) = CHR ''['' # mid @ [CHR '']'']"
    unfolding i1 i2 using a b(3) by simp
  have "searchYouTube_try parse (Response (Some t))
        = (case parse (CHR ''['' # mid @ [CHR '']'']) of
                 Inl m \<Rightarrow> Inl (Error malformed_json_message)
               | Inr v \<Rightarrow> Inr v)"
    using ne i1 i2 sb by (simp add: searchYouTube_try_def Let_def)
  then show "searchYouTube parse (Response (Some t))
            = (case parse (CHR ''['' # mid @ [CHR '']'']) of
                 Inl m \<Rightarrow> Inl (Error (''Failed to search YouTube: '' @ malformed_json_message))
               | Inr v \<Rightarrow> Inr v)"
    by (simp add: searchYouTube_def split: sum.splits)
next
  assume a: "t \<noteq> [] \<and> (\<nexists>pre mid post. t = pre @ CHR ''['' # mid @ CHR '']'' # post)"
  then have "indexOf t CHR ''['' = -1 \<or> lastIndexOf t CHR '']'' = -1
             \<or> lastIndexOf t CHR '']'' < indexOf t CHR ''[''"
    using region_exists [of t] by fastforce
  then have "searchYouTube_try parse (Response (Some t)) = Inl (Error unexpected_format_message)"
    using a by (auto simp add: searchYouTube_try_def Let_def)
  then show "searchYouTube parse (Response (Some t))
            = Inl (Error (''Failed to search YouTube: '' @ unexpected_format_message))"
    by (simp add: searchYouTube_def)
qed


theorem search_region_witness:
  \<open>searchYouTube json_parse
      (Response (Some ''Here you go: [{"videoId": "abc", "title": "T", "channelName": "C"}] Enjoy!''))
     = Inr (JArr [JObj [(''videoId'', JStr ''abc''), (''title'', JStr ''T''),
                        (''channelName'', JStr ''C'')]])
   \<and> searchYouTube json_parse (Response (Some ''See [1] and [2], or [3''))
     = Inl (Error (''Failed to search YouTube: '' @ malformed_json_message))
   \<and> searchYouTube json_parse (Response (Some ''] nothing found [''))
     = Inl (Error (''Failed to search YouTube: '' @ unexpected_format_message))\<close>
proof -
  have p1: \<open>json_parse (CHR ''['' # ''{"videoId": "abc", "title": "T", "channelName": "C"}'' @ [CHR '']''])
     = Inr (JArr [JObj [(''videoId'', JStr ''abc''), (''title'', JStr ''T''),
                        (''channelName'', JStr ''C'')]])\<close>
    by code_simp
  have p2: "json_parse (CHR ''['' # ''1] and [2'' @ [CHR '']'']) = Inl ''Unexpected token''"
    by code_simp
  have n3: "\<nexists>pre mid post. ''] nothing found ['' = pre @ CHR ''['' # mid @ CHR '']'' # post"
  proof
    assume "\<exists>pre mid post. ''] nothing found ['' = pre @ CHR ''['' # mid @ CHR '']'' # post"
    then obtain pre mid post where e: "''] nothing found ['' = pre @ CHR ''['' # mid @ CHR '']'' # post"
      by blast
    have "butlast ''] nothing found ['' = butlast (pre @ CHR ''['' # mid @ CHR '']'' # post)"
      using e by simp
    then have "''] nothing found '' = pre @ CHR ''['' # butlast (mid @ CHR '']'' # post)"
      by (simp add: butlast_append)
    then have "CHR ''['' \<in> set ''] nothing found ''"
      by (metis in_set_conv_decomp)
    then show False by simp
  qed
  show ?thesis
    using p1 p2 n3
      search_region [where parse = json_parse and pre = "''Here you go: ''"
        and mid = \<open>''{"videoId": "abc", "title": "T", "channelName": "C"}''\<close>
        and post = "'' Enjoy!''"
        and t = \<open>''Here you go: [{"videoId": "abc", "title": "T", "channelName": "C"}] Enjoy!''\<close>]
      search_region [where parse = json_parse and pre = "''See ''"
        and mid = "''1] and [2''" and post = "'', or [3''"
        and t = "''See [1] and [2], or [3''"]
      search_region [where parse = json_parse and t = "''] nothing found [''"]
    by (auto split: sum.splits)
qed

text \<open>
  C8 as stated fails on a region that is valid JSON of another shape: an array holding
  an object with one of the three fields and a number is returned, not rejected.
\<close>

theorem partial_video_is_returned:
  \<open>searchYouTube json_parse (Response (Some ''Here you go: [{"videoId": "abc"}, 7]''))
     = Inr (JArr [JObj [(''videoId'', JStr ''abc'')], JNum ''7''])
   \<and> \<not> validates videoListSchema (JArr [JObj [(''videoId'', JStr ''abc'')], JNum ''7''])\<close>
  by code_simp

lemma clean_json_fenced: "clean_json (json_fence @ body @ ''```'') = trim body"
  by (simp add: clean_json_def startsWith_def endsWith_def Let_def)

text \<open>
  C9, as the code has it. \<^verbatim>\<open>generateModuleData\<close> returns a value exactly when the response
  text is non-empty and the text, with an opening \<^verbatim>\<open>```json\<close> line and a closing fence
  removed and then trimmed, parses as JSON; the value is the parsed one, unchecked. It
  throws exactly when the call fails, the text is absent or empty, or the cleaned text is
  not valid JSON. A fenced body is cleaned to the trimmed body.
\<close>

theorem generate_module_result:
  "(generateModuleData parse out = Inr v
      \<longleftrightarrow> (\<exists>t. out = Response (Some t) \<and> t \<noteq> [] \<and> parse (clean_json t) = Inr v))
   \<and> ((\<exists>e. generateModuleData parse out = Inl e)
      \<longleftrightarrow> ((\<exists>x. out = Rejected x) \<or> out = Response None \<or> out = Response (Some [])
           \<or> (\<exists>t m. out = Response (Some t) \<and> parse (clean_json t) = Inl m)))
   \<and> clean_json (json_fence @ body @ ''```'') = trim body"
proof -
  have 1: "generateModuleData parse out = Inr v
      \<longleftrightarrow> (\<exists>t. out = Response (Some t) \<and> t \<noteq> [] \<and> parse (clean_json t) = Inr v)"
    by (auto simp add: generateModuleData_def generateModuleData_try_def
          split: text_outcome.splits option.splits sum.splits thrown.splits if_splits)
  have 2: "(\<exists>e. generateModuleData parse out = Inl e)
      \<longleftrightarrow> ((\<exists>x. out = Rejected x) \<or> out = Response None \<or> out = Response (Some [])
           \<or> (\<exists>t m. out = Response (Some t) \<and> parse (clean_json t) = Inl m))"
    by (auto simp add: generateModuleData_def generateModuleData_try_def
          split: text_outcome.splits option.splits sum.splits thrown.splits if_splits)
  from 1 2 clean_json_fenced show ?thesis by blast
qed

theorem generate_module_result_witness:
  \<open>generateModuleData json_parse (Response (Some (json_fence @ '' {"concepts": []} '' @ ''```'')))
     = Inr (JObj [(''concepts'', JArr [])])
   \<and> generateModuleData json_parse (Response (Some ''Sorry, I cannot help.''))
     = Inl (Error ''Failed to generate module concepts: Unexpected token'')
   \<and> generateModuleData json_parse (Response (Some []))
     = Inl (Error (''Failed to generate module concepts: '' @ empty_module_message))\<close>
proof -
  have a: \<open>json_parse (clean_json (json_fence @ '' {"concepts": []} '' @ ''```''))
           = Inr (JObj [(''concepts'', JArr [])])\<close>
    by code_simp
  have b: "generateModuleData json_parse (Response (Some ''Sorry, I cannot help.''))
     = Inl (Error ''Failed to generate module concepts: Unexpected token'')"
    by code_simp
  have c: "generateModuleData json_parse (Response (Some []))
     = Inl (Error (''Failed to generate module concepts: '' @ empty_module_message))"
    by (simp add: generateModuleData_def generateModuleData_try_def)
  have d: \<open>json_fence @ '' {"concepts": []} '' @ ''```'' \<noteq> []\<close> by (simp add: json_fence_def)
  show ?thesis
    using a b c d
      generate_module_result [where parse = json_parse
        and out = \<open>Response (Some (json_fence @ '' {"concepts": []} '' @ ''```''))\<close>
        and v = "JObj [(''concepts'', JArr [])]"]
    by blast
qed

text \<open>
  C9 as stated fails on valid JSON that does not fit \<^verbatim>\<open>moduleSchema\<close>: an object with
  one empty concept and no summary or visual task is returned, not rejected.
\<close>

theorem unvalidated_module_is_returned:
  \<open>generateModuleData json_parse (Response (Some ''{"concepts": [{}]}''))
     = Inr (JObj [(''concepts'', JArr [JObj []])])
   \<and> \<not> validates moduleSchema (JObj [(''concepts'', JArr [JObj []])])\<close>
  by code_simp

section \<open>The score\<close>




















end
